theory Spec2Isabelle
  imports Complex_Main
begin

section \<open>The grading manager (manager.py)\<close>

text \<open>
  The manager claims an attempt, runs one grading strategy on it, reduces the verdicts of
  the tests to a final verdict and writes the outcome to the store. This theory embeds
  the functions of \<^verbatim>\<open>manager.py\<close> as HOL functions. The attempt object is mutated in
  place and every call to the store, to the alerting service and to a strategy is an
  effect, so both live in an explicit state that each function takes and returns.
\<close>

subsection \<open>Data\<close>

text \<open>
  \<^verbatim>\<open>Attempt.Result\<close>: the reference to the test and the verdict code. The class is
  declared in \<^verbatim>\<open>models\<close>; these are the two fields the manager reads and writes.
\<close>

record result =
  test :: string
  verdict :: int

text \<open>
  \<^verbatim>\<open>Attempt\<close>: the fields the manager uses. The date is opaque to the manager (it
  is only copied), an integer stands for it.
\<close>

record attempt =
  spec :: string
  date :: int
  language :: string
  results :: "result list"
  text_answers :: "string list"

text \<open>
  The exceptions that the code of the manager can raise by itself, with the text that
  \<^verbatim>\<open>str\<close> gives for them in Python, and the exceptions of the collaborators, which
  carry their description.
\<close>

datatype exn = IndexError | ZeroDivisionError | Raised string

fun str :: "exn \<Rightarrow> string" where
  "str IndexError = ''list index out of range''"
| "str ZeroDivisionError = ''division by zero''"
| "str (Raised msg) = msg"

text \<open>
  A test of the task (\<^verbatim>\<open>TaskTest\<close>), the document of a language as the store returns
  it, the \<^verbatim>\<open>Language\<close> made from it, and the descriptor of the pending job.
\<close>

record task_test =
  test_spec :: string
  output_data :: string

record language_dict =
  dict_spec :: string

record language_info =
  language_spec :: string

record checker_descriptor =
  checker_language :: string

record pending_queue_item =
  task_type :: int
  task_check_type :: int
  checker :: "checker_descriptor option"

text \<open>
  The snapshot of one graded attempt (the dictionary \<^verbatim>\<open>current_attempt\<close>) and the
  aggregate of a user and a task in the collection \<^verbatim>\<open>user_task_result\<close>.
\<close>

record snapshot =
  snap_attempt :: string
  snap_date :: int
  passedTests :: nat
  percentTests :: int
  snap_verdict :: int
  verdictTest :: nat

record user_task_result =
  utr_results :: "snapshot list"
  utr_bests :: "snapshot list"

subsection \<open>Effects and the collaborators\<close>

text \<open>
  Every write to the store, every alert and every start of a strategy is recorded, in the
  order in which the manager issues it. The constructors follow the calls of the source:
  \<^item> \<open>Set_attempt_status spec st\<close>:
    \<^verbatim>\<open>update_one("attempt", {"spec": spec}, {"$set": {"status": st}})\<close>;
  \<^item> \<open>Set_user_task_status spec st\<close>:
    \<^verbatim>\<open>update_one("user_task_status", {"attempt": spec}, {"$set": {"status": st}})\<close>;
  \<^item> \<open>Delete_pending spec\<close>: \<^verbatim>\<open>delete_one("pending_task_attempt", {"attempt": spec})\<close>;
  \<^item> \<open>Save_attempt spec st v t rs logs\<close>: the update of \<^verbatim>\<open>_save_attempt_results\<close>,
    setting status, verdict, verdictTest, results and logs;
  \<^item> \<open>Inc_rating user n upsert\<close>:
    \<^verbatim>\<open>update_one("rating", {"user": user}, {"$inc": {"score": n}}, upsert)\<close>;
  \<^item> \<open>Insert_user_task_result task user rs bs\<close>: the \<^verbatim>\<open>insert_one\<close> of a new aggregate;
  \<^item> \<open>Push_user_task_result task user r b\<close>: the \<^verbatim>\<open>$push\<close> of \<open>r\<close> to results and of
    \<open>b\<close> to bests;
  \<^item> \<open>Alert kind message\<close>: \<^verbatim>\<open>send_alert(kind, message)\<close>;
  \<^item> \<open>Create_folder p\<close>, \<open>Delete_folder p\<close>: the folder of the program;
  \<^item> \<open>Start k\<close>: the call of \<^verbatim>\<open>start\<close> of the strategy \<open>k\<close>.
\<close>

datatype checker_kind = Text_checker | Tests_checker | Custom_checker

datatype event =
    Set_attempt_status string int
  | Set_user_task_status string int
  | Delete_pending string
  | Save_attempt string int int nat "result list" "string list"
  | Inc_rating string int bool
  | Insert_user_task_result string string "snapshot list" "snapshot list"
  | Push_user_task_result string string snapshot snapshot
  | Alert string string
  | Create_folder string
  | Delete_folder string
  | Start checker_kind

record state =
  att :: attempt
  trace :: "event list"

definition emit :: "event \<Rightarrow> state \<Rightarrow> state" where
  "emit ev s = s\<lparr>trace := trace s @ [ev]\<rparr>"

text \<open>
  What the manager imports and this file does not define is a parameter:
  \<^item> \<open>map_verdict\<close>, \<open>map_attempt_status\<close>: the tables of \<^verbatim>\<open>utils.basic\<close> from a name
    to its code;
  \<^item> \<open>modified_count\<close>: the count of modified documents that the store reports for the
    update of the status of the attempt with the given spec;
  \<^item> \<open>find_user_task_result task user\<close>: what \<^verbatim>\<open>find_one\<close> returns for the aggregate;
  \<^item> \<open>find_language spec\<close>: what \<^verbatim>\<open>find_one("language", {"spec": spec})\<close> gives: the
    document, nothing, or an exception of the lookup;
  \<^item> \<open>make_language\<close>: the constructor \<^verbatim>\<open>Language\<close> of \<^verbatim>\<open>models\<close>, which may raise
    on what was found;
  \<^item> \<open>program_folder spec\<close>: the path that \<^verbatim>\<open>create_program_folder\<close> returns;
  \<^item> the three strategies: each returns verdicts and logs, or raises.
\<close>

record env =
  map_verdict :: "string \<Rightarrow> int"
  map_attempt_status :: "string \<Rightarrow> int"
  modified_count :: "string \<Rightarrow> nat"
  find_user_task_result :: "string \<Rightarrow> string \<Rightarrow> user_task_result option"
  find_language :: "string \<Rightarrow> exn + language_dict option"
  make_language :: "language_dict option \<Rightarrow> exn + language_info"
  program_folder :: "string \<Rightarrow> string"
  text_checker :: "string list \<Rightarrow> string list \<Rightarrow> int list \<Rightarrow> exn + int list \<times> string list"
  tests_checker ::
    "attempt \<Rightarrow> task_test list list \<Rightarrow> string \<Rightarrow> language_info \<Rightarrow> exn + int list \<times> string list"
  custom_checker ::
    "checker_descriptor \<Rightarrow> attempt \<Rightarrow> task_test list list \<Rightarrow> string \<Rightarrow> language_info \<Rightarrow>
     language_info \<Rightarrow> exn + int list \<times> string list"

text \<open>
  Modelled from the spec: \<^verbatim>\<open>generate_tests_verdicts\<close> of \<^verbatim>\<open>utils.basic\<close> is not in
  this file. The spec has it write one uniform verdict for every existing result slot:
  the code of the named verdict, once per slot.
\<close>

definition generate_tests_verdicts :: "env \<Rightarrow> string \<Rightarrow> nat \<Rightarrow> int list" where
  "generate_tests_verdicts env name n = replicate n (map_verdict env name)"

text \<open>
  Modelled from the spec: \<^verbatim>\<open>send_alert\<close> of \<^verbatim>\<open>utils.basic\<close> is not in this file.
  The spec has it fire and forget an alert of a kind with a message: it is recorded and
  does not raise.
\<close>

definition send_alert :: "string \<Rightarrow> string \<Rightarrow> state \<Rightarrow> state" where
  "send_alert kind message s = emit (Alert kind message) s"

subsection \<open>Reducing the verdicts: \<^verbatim>\<open>_get_attempt_final_info\<close>\<close>

text \<open>
  The first loop: \<^verbatim>\<open>for idx, result in enumerate(results): results[idx].verdict = verdicts[idx]\<close>.
  It walks the results from the front and reads the verdict at the same index; when the
  verdicts run out, \<^verbatim>\<open>verdicts[idx]\<close> raises IndexError, and the results before that
  index have been overwritten already. The function returns the exception, if any, and the
  results as the loop leaves them.
\<close>

fun assign_verdicts :: "result list \<Rightarrow> int list \<Rightarrow> exn option \<times> result list" where
  "assign_verdicts [] vs = (None, [])"
| "assign_verdicts (r # rs) [] = (Some IndexError, r # rs)"
| "assign_verdicts (r # rs) (v # vs) =
     (case assign_verdicts rs vs of (e, rs') \<Rightarrow> (e, r\<lparr>verdict := v\<rparr> # rs'))"

text \<open>
  The second loop, with its two running variables: the count goes up by one and the final
  verdict becomes the verdict of the result visited, then a non-zero verdict breaks.
\<close>

fun scan_results :: "result list \<Rightarrow> int \<Rightarrow> nat \<Rightarrow> int \<times> nat" where
  "scan_results [] attempt_final_verdict attempt_final_verdict_test =
     (attempt_final_verdict, attempt_final_verdict_test)"
| "scan_results (r # rs) attempt_final_verdict attempt_final_verdict_test =
     (if verdict r \<noteq> 0 then (verdict r, attempt_final_verdict_test + 1)
      else scan_results rs (verdict r) (attempt_final_verdict_test + 1))"

text \<open>
  The function returns the pair, or the exception, together with the results list after
  the assignments. The scan starts from the code of NT and the count 0.
\<close>

definition get_attempt_final_info ::
  "env \<Rightarrow> result list \<Rightarrow> int list \<Rightarrow> (exn + int \<times> nat) \<times> result list" where
  "get_attempt_final_info env rs verdicts =
     (case assign_verdicts rs verdicts of
        (Some e, rs') \<Rightarrow> (Inl e, rs')
      | (None, rs') \<Rightarrow> (Inr (scan_results rs' (map_verdict env ''NT'') 0), rs'))"

subsection \<open>The percentage of passed tests\<close>

text \<open>
  \<^verbatim>\<open>floor(passed_tests / len(verdicts) * 100)\<close> is computed in binary floating point:
  \<^verbatim>\<open>/\<close> on two integers is the true division, which gives the double nearest to the
  quotient, the product with 100 is rounded to the nearest double again, and
  \<^verbatim>\<open>floor\<close> is exact. A finite double is a rational number, so the two roundings are
  modelled on \<open>rat\<close>: to the nearest number with a significand of 53 bits, a tie going
  to the even significand. The exponent is not bounded here; the quotients of two list
  lengths and their products with 100 are far inside the range of the normal doubles.
\<close>

text \<open>The number of binary digits of a positive integer, as \<^verbatim>\<open>int.bit_length\<close> counts them.\<close>

function bit_length :: "int \<Rightarrow> int" where
  "bit_length k = (if k \<le> 0 then 0 else 1 + bit_length (k div 2))"
  by pat_completeness auto
termination
  by (relation "measure nat") auto

declare bit_length.simps [simp del]

definition pow2 :: "int \<Rightarrow> rat" where
  "pow2 e = (if 0 \<le> e then 2 ^ nat e else 1 / 2 ^ nat (- e))"

text \<open>The exponent \<open>k\<close> with \<open>2 ^ k \<le> x < 2 ^ (k + 1)\<close>, for a positive \<open>x\<close>.\<close>

definition binade :: "rat \<Rightarrow> int" where
  "binade x =
     (case quotient_of x of (n, d) \<Rightarrow>
        (let k = bit_length n - bit_length d
         in if pow2 k \<le> x then k else k - 1))"

definition round_half_even :: "rat \<Rightarrow> int" where
  "round_half_even x =
     (let f = \<lfloor>x\<rfloor>; d = x - of_int f
      in if d < 1 / 2 then f else if 1 / 2 < d then f + 1 else if even f then f else f + 1)"

text \<open>
  The nearest double of a non-negative \<open>x\<close>: the significand is \<open>x\<close> scaled into
  \<open>[2 ^ 52, 2 ^ 53)\<close> and rounded. Only quotients of two lengths and their products with
  100 are rounded here, so the sign is not treated.
\<close>

definition round_double :: "rat \<Rightarrow> rat" where
  "round_double x =
     (if x = 0 then 0
      else (let e = binade x - 52
            in of_int (round_half_even (x / pow2 e)) * pow2 e))"

text \<open>
  Line 153. The division by the length of an empty verdicts list raises
  ZeroDivisionError.
\<close>

definition percent_tests :: "nat \<Rightarrow> nat \<Rightarrow> exn + int" where
  "percent_tests passed_tests n =
     (if n = 0 then Inl ZeroDivisionError
      else Inr \<lfloor>round_double (round_double (of_nat passed_tests / of_nat n) * 100)\<rfloor>)"

subsection \<open>Writing the outcome\<close>

text \<open>\<^verbatim>\<open>_save_attempt_results\<close>: one update of the attempt document.\<close>

definition save_attempt_results ::
  "env \<Rightarrow> string \<Rightarrow> result list \<Rightarrow> int \<Rightarrow> nat \<Rightarrow> string list \<Rightarrow> state \<Rightarrow> state" where
  "save_attempt_results env attempt_spec rs attempt_final_verdict attempt_final_verdict_test logs s =
     emit (Save_attempt attempt_spec (map_attempt_status env ''finished'') attempt_final_verdict
             attempt_final_verdict_test rs logs) s"

text \<open>The pieces of \<^verbatim>\<open>_save_task_results\<close>, in the order of the source.\<close>

text \<open>Lines 149 to 152: the count of the verdicts equal to the code of OK.\<close>

definition passed_tests_of :: "env \<Rightarrow> int list \<Rightarrow> nat" where
  "passed_tests_of env verdicts = length (filter (\<lambda>v. v = map_verdict env ''OK'') verdicts)"

text \<open>Lines 155 to 162: the dictionary \<^verbatim>\<open>current_attempt\<close>.\<close>

definition current_attempt :: "attempt \<Rightarrow> nat \<Rightarrow> int \<Rightarrow> int \<Rightarrow> nat \<Rightarrow> snapshot" where
  "current_attempt a passed percent attempt_final_verdict attempt_final_verdict_test =
     \<lparr>snap_attempt = spec a, snap_date = date a, passedTests = passed, percentTests = percent,
      snap_verdict = attempt_final_verdict, verdictTest = attempt_final_verdict_test\<rparr>"

text \<open>Lines 170 to 173: the last entry of \<^verbatim>\<open>bests\<close>, when there is an aggregate with one.\<close>

definition best_attempt_of :: "user_task_result option \<Rightarrow> snapshot option" where
  "best_attempt_of user_task_result_dict =
     (case user_task_result_dict of
        None \<Rightarrow> None
      | Some d \<Rightarrow> if length (utr_bests d) = 0 then None else Some (last (utr_bests d)))"

text \<open>Lines 175 to 183: the previous best with the date of this attempt, or the snapshot.\<close>

definition new_best_attempt_of ::
  "env \<Rightarrow> attempt \<Rightarrow> snapshot option \<Rightarrow> snapshot \<Rightarrow> int \<Rightarrow> int \<Rightarrow> snapshot" where
  "new_best_attempt_of env a best_attempt current attempt_final_verdict percent =
     (case best_attempt of
        Some b \<Rightarrow>
          if (snap_verdict b = attempt_final_verdict \<and> attempt_final_verdict = map_verdict env ''OK'')
             \<or> percentTests b > percent
          then b\<lparr>snap_date := date a\<rparr>
          else current
      | None \<Rightarrow> current)"

text \<open>Lines 187 to 194: the increment of the rating, an upsert, or nothing.\<close>

definition rating_actions :: "string \<Rightarrow> snapshot option \<Rightarrow> snapshot \<Rightarrow> event list" where
  "rating_actions author_login best_attempt new_best_attempt =
     (if (case best_attempt of None \<Rightarrow> True | Some b \<Rightarrow> snap_verdict b \<noteq> 0)
         \<and> snap_verdict new_best_attempt = 0
      then [Inc_rating author_login 1 True] else [])"

text \<open>Lines 196 to 214: the insert of a new aggregate, or the push to the one found.\<close>

definition aggregate_action ::
  "string \<Rightarrow> string \<Rightarrow> user_task_result option \<Rightarrow> snapshot \<Rightarrow> snapshot \<Rightarrow> event" where
  "aggregate_action task_spec author_login user_task_result_dict current new_best_attempt =
     (case user_task_result_dict of
        None \<Rightarrow> Insert_user_task_result task_spec author_login [current] [new_best_attempt]
      | Some d \<Rightarrow> Push_user_task_result task_spec author_login current new_best_attempt)"

text \<open>
  \<^verbatim>\<open>_save_task_results\<close>. The percentage comes first: when it raises, nothing has
  been read or written.
\<close>

definition save_task_results ::
  "env \<Rightarrow> string \<Rightarrow> string \<Rightarrow> int list \<Rightarrow> int \<Rightarrow> nat \<Rightarrow> state \<Rightarrow> exn option \<times> state" where
  "save_task_results env author_login task_spec verdicts attempt_final_verdict
       attempt_final_verdict_test s =
     (case percent_tests (passed_tests_of env verdicts) (length verdicts) of
        Inl e \<Rightarrow> (Some e, s)
      | Inr percent \<Rightarrow>
          (let current = current_attempt (att s) (passed_tests_of env verdicts) percent
                           attempt_final_verdict attempt_final_verdict_test;
               user_task_result_dict = find_user_task_result env task_spec author_login;
               best_attempt = best_attempt_of user_task_result_dict;
               new_best_attempt = new_best_attempt_of env (att s) best_attempt current
                                    attempt_final_verdict percent;
               database_actions = rating_actions author_login best_attempt new_best_attempt
                  @ [aggregate_action task_spec author_login user_task_result_dict current
                       new_best_attempt]
           in (None, s\<lparr>trace := trace s @ database_actions\<rparr>)))"

text \<open>
  \<^verbatim>\<open>_save_results\<close>. The verdicts are assigned to the results of the attempt in place;
  an exception there leaves before any write. Then \<^verbatim>\<open>asyncio.gather\<close> starts the four
  operations in the order of the list, and each runs up to its first suspension. The delete
  and the update of the attempt are issued. \<^verbatim>\<open>_save_task_results\<close> computes the
  percentage, where it may raise, and suspends at \<^verbatim>\<open>find_one\<close> (line 166) with nothing
  written yet. The update of the status mirror is issued next, whether the third operation
  raised or waits. The writes of \<^verbatim>\<open>_save_task_results\<close> follow when it resumes. So the
  mirror update is recorded before the call of \<^verbatim>\<open>_save_task_results\<close>, whose exception,
  if any, is what the gather raises.
\<close>

definition save_results ::
  "env \<Rightarrow> string \<Rightarrow> string \<Rightarrow> int list \<Rightarrow> string list \<Rightarrow> state \<Rightarrow> exn option \<times> state" where
  "save_results env author_login task_spec verdicts logs s =
     (case get_attempt_final_info env (results (att s)) verdicts of
        (Inl e, rs') \<Rightarrow> (Some e, s\<lparr>att := (att s)\<lparr>results := rs'\<rparr>\<rparr>)
      | (Inr (attempt_final_verdict, attempt_final_verdict_test), rs') \<Rightarrow>
          (let s0 = s\<lparr>att := (att s)\<lparr>results := rs'\<rparr>\<rparr>;
               s1 = emit (Delete_pending (spec (att s0))) s0;
               s2 = save_attempt_results env (spec (att s1)) (results (att s1))
                      attempt_final_verdict attempt_final_verdict_test logs s1;
               s3 = emit (Set_user_task_status (spec (att s2))
                      (map_attempt_status env ''finished'')) s2
           in save_task_results env author_login task_spec verdicts
                attempt_final_verdict attempt_final_verdict_test s3))"

subsection \<open>Claiming the attempt: \<^verbatim>\<open>_set_testing\<close>\<close>

text \<open>
  The two updates to the status "testing" are issued together; the answer of the store to
  the first decides. When it is not one modified document, the fallback is saved first,
  and an exception of that save leaves the function.
\<close>

definition set_testing :: "env \<Rightarrow> string \<Rightarrow> string \<Rightarrow> state \<Rightarrow> (exn + bool) \<times> state" where
  "set_testing env author_login task_spec s =
     (let status = map_attempt_status env ''testing'';
          s1 = emit (Set_attempt_status (spec (att s)) status) s;
          s2 = emit (Set_user_task_status (spec (att s1)) status) s1;
          is_testing_set = (modified_count env (spec (att s)) = 1)
      in if \<not> is_testing_set
         then (case save_results env author_login task_spec
                      (generate_tests_verdicts env ''NT'' (length (results (att s2))))
                      [''Error in setting testing status''] s2 of
                 (Some e, s3) \<Rightarrow> (Inl e, s3)
               | (None, s3) \<Rightarrow> (Inr is_testing_set, s3))
         else (Inr is_testing_set, s2))"

subsection \<open>The supervising wrapper: \<^verbatim>\<open>_soft_run\<close>\<close>

text \<open>
  The decorator takes the handler and gives the function that runs it inside
  \<^verbatim>\<open>try\<close>. A handler is any function of the author, the task and the state that
  returns the state it leaves and the exception it raised, if any. The wrapper itself
  returns \<open>None\<close> for "no exception" on every path.
\<close>

definition soft_run ::
  "env \<Rightarrow> (string \<Rightarrow> string \<Rightarrow> state \<Rightarrow> exn option \<times> state) \<Rightarrow>
   string \<Rightarrow> string \<Rightarrow> state \<Rightarrow> exn option \<times> state" where
  "soft_run env func author_login task_spec s =
     (case func author_login task_spec s of
        (None, s1) \<Rightarrow> (None, s1)
      | (Some manager_exc, s1) \<Rightarrow>
          (let rs = results (att s1);
               s2 = send_alert ''ManagerError'' (spec (att s1) @ [CHR 0x0A] @ str manager_exc) s1
           in case save_results env author_login task_spec
                     (generate_tests_verdicts env ''SE'' (length rs)) [str manager_exc] s2 of
                (None, s3) \<Rightarrow> (None, s3)
              | (Some saving_exception, s3) \<Rightarrow>
                  (None, send_alert ''ManagerError (when saving results)''
                           (spec (att s3) @ [CHR 0x0A] @ str saving_exception) s3)))"

subsection \<open>The three handlers\<close>

text \<open>Each handler is its body under the wrapper. The bodies follow.\<close>

definition handle_text_task_body ::
  "env \<Rightarrow> task_test list \<Rightarrow> int list \<Rightarrow> pending_queue_item \<Rightarrow>
   string \<Rightarrow> string \<Rightarrow> state \<Rightarrow> exn option \<times> state" where
  "handle_text_task_body env task_tests test_groups queue_item author_login task_spec s =
     (case set_testing env author_login task_spec s of
        (Inl e, s1) \<Rightarrow> (Some e, s1)
      | (Inr is_set_testing, s1) \<Rightarrow>
          if \<not> is_set_testing then (None, s1)
          else (let user_answers = text_answers (att s1);
                    correct_answers = map output_data task_tests;
                    s2 = emit (Start Text_checker) s1
                in case text_checker env user_answers correct_answers test_groups of
                     Inl e \<Rightarrow> (Some e, s2)
                   | Inr (verdicts, logs) \<Rightarrow>
                       save_results env author_login task_spec verdicts logs s2))"

definition handle_tests_checker_body ::
  "env \<Rightarrow> task_test list list \<Rightarrow> pending_queue_item \<Rightarrow>
   string \<Rightarrow> string \<Rightarrow> state \<Rightarrow> exn option \<times> state" where
  "handle_tests_checker_body env grouped_tests queue_item author_login task_spec s =
     (case set_testing env author_login task_spec s of
        (Inl e, s1) \<Rightarrow> (Some e, s1)
      | (Inr is_set, s1) \<Rightarrow>
          if \<not> is_set then (None, s1)
          else (case find_language env (language (att s1)) of
                  Inl e \<Rightarrow> (Some e, s1)
                | Inr language_dict \<Rightarrow>
                    (case make_language env language_dict of
                       Inl e \<Rightarrow> (Some e, s1)
                     | Inr lang \<Rightarrow>
                         (let folder_path = program_folder env (spec (att s1));
                              s2 = emit (Create_folder folder_path) s1;
                              s3 = emit (Start Tests_checker) s2
                          in case tests_checker env (att s3) grouped_tests folder_path lang of
                               Inl e \<Rightarrow> (Some e, s3)
                             | Inr (verdicts, logs) \<Rightarrow>
                                 save_results env author_login task_spec verdicts logs
                                   (emit (Delete_folder folder_path) s3)))))"

text \<open>
  In the handler of the custom checker the two lookups of a language are gathered (lines
  365 to 370): an exception of a lookup is raised before either \<^verbatim>\<open>Language\<close> is
  constructed, that of the program lookup when both raise. Then the language of the
  program is constructed, then that of the checker.
\<close>

definition handle_custom_checker_body ::
  "env \<Rightarrow> task_test list list \<Rightarrow> pending_queue_item \<Rightarrow>
   string \<Rightarrow> string \<Rightarrow> state \<Rightarrow> exn option \<times> state" where
  "handle_custom_checker_body env grouped_tests queue_item author_login task_spec s =
     (case set_testing env author_login task_spec s of
        (Inl e, s1) \<Rightarrow> (Some e, s1)
      | (Inr is_set, s1) \<Rightarrow>
          if \<not> is_set then (None, s1)
          else (case checker queue_item of
                  None \<Rightarrow>
                    save_results env author_login task_spec
                      (generate_tests_verdicts env ''NT'' (length (results (att s1))))
                      [''Error in setting testing status''] s1
                | Some chk \<Rightarrow>
                    (case find_language env (language (att s1)) of
                       Inl e \<Rightarrow> (Some e, s1)
                     | Inr program_language_dict \<Rightarrow>
                    (case find_language env (checker_language chk) of
                       Inl e \<Rightarrow> (Some e, s1)
                     | Inr checker_language_dict \<Rightarrow>
                    (case make_language env program_language_dict of
                       Inl e \<Rightarrow> (Some e, s1)
                     | Inr program_language \<Rightarrow>
                    (case make_language env checker_language_dict of
                       Inl e \<Rightarrow> (Some e, s1)
                     | Inr checker_lang \<Rightarrow>
                         (let folder_path = program_folder env (spec (att s1));
                              s2 = emit (Create_folder folder_path) s1;
                              s3 = emit (Start Custom_checker) s2
                          in case custom_checker env chk (att s3) grouped_tests folder_path
                                    program_language checker_lang of
                               Inl e \<Rightarrow> (Some e, s3)
                             | Inr (verdicts, logs) \<Rightarrow>
                                 save_results env author_login task_spec verdicts logs
                                   (emit (Delete_folder folder_path) s3))))))))"

definition handle_text_task ::
  "env \<Rightarrow> task_test list \<Rightarrow> int list \<Rightarrow> pending_queue_item \<Rightarrow>
   string \<Rightarrow> string \<Rightarrow> state \<Rightarrow> exn option \<times> state" where
  "handle_text_task env task_tests test_groups queue_item =
     soft_run env (handle_text_task_body env task_tests test_groups queue_item)"

definition handle_tests_checker ::
  "env \<Rightarrow> task_test list list \<Rightarrow> pending_queue_item \<Rightarrow>
   string \<Rightarrow> string \<Rightarrow> state \<Rightarrow> exn option \<times> state" where
  "handle_tests_checker env grouped_tests queue_item =
     soft_run env (handle_tests_checker_body env grouped_tests queue_item)"

definition handle_custom_checker ::
  "env \<Rightarrow> task_test list list \<Rightarrow> pending_queue_item \<Rightarrow>
   string \<Rightarrow> string \<Rightarrow> state \<Rightarrow> exn option \<times> state" where
  "handle_custom_checker env grouped_tests queue_item =
     soft_run env (handle_custom_checker_body env grouped_tests queue_item)"

subsection \<open>Classes of events\<close>

text \<open>Predicates on the recorded events, to count and to find them in a trace.\<close>

fun is_alert :: "event \<Rightarrow> bool" where
  "is_alert (Alert kind message) = True"
| "is_alert ev = False"

fun is_start :: "event \<Rightarrow> bool" where
  "is_start (Start k) = True"
| "is_start ev = False"

fun is_rating_write :: "event \<Rightarrow> bool" where
  "is_rating_write (Inc_rating user n upsert) = True"
| "is_rating_write ev = False"

fun is_aggregate_write :: "event \<Rightarrow> bool" where
  "is_aggregate_write (Insert_user_task_result task user rs bs) = True"
| "is_aggregate_write (Push_user_task_result task user r b) = True"
| "is_aggregate_write ev = False"

subsection \<open>A sample configuration\<close>

text \<open>
  Concrete tables and answers of the collaborators, to run the functions on: OK is 0, the
  store reports one modified document, no aggregate is found and every strategy returns
  one OK verdict.
\<close>

definition example_env :: env where
  "example_env =
     \<lparr>map_verdict = (\<lambda>name. if name = ''OK'' then 0 else if name = ''NT'' then 10
                          else if name = ''SE'' then 9 else 1),
      map_attempt_status = (\<lambda>name. if name = ''testing'' then 1
                          else if name = ''finished'' then 2 else 0),
      modified_count = (\<lambda>attempt_spec. 1),
      find_user_task_result = (\<lambda>task_spec author_login. None),
      find_language = (\<lambda>l. Inr (Some \<lparr>dict_spec = l\<rparr>)),
      make_language = (\<lambda>found. case found of
                          None \<Rightarrow> Inl (Raised ''no language'')
                        | Some d \<Rightarrow> Inr \<lparr>language_spec = dict_spec d\<rparr>),
      program_folder = (\<lambda>attempt_spec. ''/tmp/'' @ attempt_spec),
      text_checker = (\<lambda>user_answers correct_answers test_groups. Inr ([0], [])),
      tests_checker = (\<lambda>a grouped_tests folder_path lang. Inr ([0], [])),
      custom_checker = (\<lambda>chk a grouped_tests folder_path lang checker_lang. Inr ([0], []))\<rparr>"

text \<open>A result slot of the test \<open>t\<close>, as loaded.\<close>

definition slot :: "string \<Rightarrow> result" where
  "slot t = \<lparr>test = t, verdict = 0\<rparr>"

text \<open>
  An attempt with the given result slots and no effect recorded yet, and a previous best
  of a user with a verdict and a percentage.
\<close>

definition example_state :: "result list \<Rightarrow> state" where
  "example_state rs =
     \<lparr>att = \<lparr>spec = ''a1'', date = 7, language = ''py'', results = rs, text_answers = []\<rparr>,
      trace = []\<rparr>"

definition example_best :: "int \<Rightarrow> int \<Rightarrow> snapshot" where
  "example_best v percent =
     \<lparr>snap_attempt = ''a0'', snap_date = 5, passedTests = 2, percentTests = percent,
      snap_verdict = v, verdictTest = 3\<rparr>"

text \<open>The sample configuration with an aggregate found, whose only best is \<open>b\<close>.\<close>

definition example_env_with_best :: "snapshot \<Rightarrow> env" where
  "example_env_with_best b =
     example_env\<lparr>find_user_task_result :=
       (\<lambda>task_spec author_login. Some \<lparr>utr_results = [b], utr_bests = [b]\<rparr>)\<rparr>"

text \<open>The sample configuration with a store that reports no modified document.\<close>

definition example_env_lease_lost :: env where
  "example_env_lease_lost = example_env\<lparr>modified_count := (\<lambda>attempt_spec. 0)\<rparr>"

text \<open>A handler that raises at once, with the description \<open>boom\<close>.\<close>

definition failing_handler :: "string \<Rightarrow> string \<Rightarrow> state \<Rightarrow> exn option \<times> state" where
  "failing_handler author_login task_spec s = (Some (Raised ''boom''), s)"

section \<open>Properties\<close>

subsection \<open>The final verdict and its index\<close>

lemma assign_verdicts_covered:
  "length rs \<le> length vs \<Longrightarrow>
   assign_verdicts rs vs = (None, map (\<lambda>(r, v). r\<lparr>verdict := v\<rparr>) (zip rs vs))"
  by (induction rs vs rule: assign_verdicts.induct) auto

lemma assign_verdicts_short:
  "length vs < length rs \<Longrightarrow> fst (assign_verdicts rs vs) = Some IndexError"
  by (induction rs vs rule: assign_verdicts.induct) (auto split: prod.splits)

lemma assign_verdicts_length: "length (snd (assign_verdicts rs vs)) = length rs"
  by (induction rs vs rule: assign_verdicts.induct) (auto split: prod.splits)

lemma scan_results_all_zero:
  "\<forall>r \<in> set rs. verdict r = 0 \<Longrightarrow> rs \<noteq> [] \<Longrightarrow> scan_results rs v n = (0, n + length rs)"
proof (induction rs arbitrary: v n)
  case Nil
  then show ?case by simp
next
  case (Cons r rs)
  then show ?case by (cases rs) auto
qed

lemma scan_results_first_nonzero:
  "i < length rs \<Longrightarrow> verdict (rs ! i) \<noteq> 0 \<Longrightarrow> \<forall>j<i. verdict (rs ! j) = 0 \<Longrightarrow>
   scan_results rs v n = (verdict (rs ! i), n + i + 1)"
proof (induction rs arbitrary: v n i)
  case Nil
  then show ?case by simp
next
  case (Cons r rs)
  show ?case
  proof (cases i)
    case 0
    with Cons.prems show ?thesis by simp
  next
    case (Suc k)
    with Cons.prems have r0: "verdict r = 0" by auto
    have "scan_results rs (verdict r) (n + 1) = (verdict (rs ! k), n + 1 + k + 1)"
      using Cons.prems Suc by (intro Cons.IH) auto
    with r0 Suc show ?thesis by simp
  qed
qed

lemma get_attempt_final_info_covered:
  "length rs \<le> length vs \<Longrightarrow>
   get_attempt_final_info env rs vs =
     (Inr (scan_results (map (\<lambda>(r, v). r\<lparr>verdict := v\<rparr>) (zip rs vs)) (map_verdict env ''NT'') 0),
      map (\<lambda>(r, v). r\<lparr>verdict := v\<rparr>) (zip rs vs))"
  by (simp add: get_attempt_final_info_def assign_verdicts_covered)

text \<open>
  C1. For results and verdicts of the same length, \<^verbatim>\<open>_get_attempt_final_info\<close>
  assigns \<open>verdicts[i]\<close> to the verdict of \<open>results[i]\<close> for every index and leaves the
  tests as they are. It returns the first non-zero verdict with its position counted from
  one; when every verdict is zero, the verdict 0 with the length of the list; for an empty
  list, the code of NT with the index 0.
\<close>

theorem get_attempt_final_info_first_failure:
  assumes "length rs = length verdicts"
  shows "length (snd (get_attempt_final_info env rs verdicts)) = length rs
    \<and> (\<forall>i<length rs. verdict (snd (get_attempt_final_info env rs verdicts) ! i) = verdicts ! i
                      \<and> test (snd (get_attempt_final_info env rs verdicts) ! i) = test (rs ! i))
    \<and> (\<forall>i<length rs. verdicts ! i \<noteq> 0 \<and> (\<forall>j<i. verdicts ! j = 0) \<longrightarrow>
          fst (get_attempt_final_info env rs verdicts) = Inr (verdicts ! i, i + 1))
    \<and> (rs \<noteq> [] \<and> (\<forall>v\<in>set verdicts. v = 0) \<longrightarrow>
          fst (get_attempt_final_info env rs verdicts) = Inr (0, length rs))
    \<and> (rs = [] \<longrightarrow> fst (get_attempt_final_info env rs verdicts) = Inr (map_verdict env ''NT'', 0))"
proof -
  let ?rs' = "map (\<lambda>(r, v). r\<lparr>verdict := v\<rparr>) (zip rs verdicts)"
  have eq: "get_attempt_final_info env rs verdicts =
      (Inr (scan_results ?rs' (map_verdict env ''NT'') 0), ?rs')"
    using assms by (simp add: get_attempt_final_info_covered)
  have len: "length ?rs' = length rs" using assms by simp
  have nth: "\<And>i. i < length rs \<Longrightarrow> verdict (?rs' ! i) = verdicts ! i \<and> test (?rs' ! i) = test (rs ! i)"
    using assms by simp
  have first: "fst (get_attempt_final_info env rs verdicts) = Inr (verdicts ! i, i + 1)"
    if "i < length rs" "verdicts ! i \<noteq> 0" "\<forall>j<i. verdicts ! j = 0" for i
  proof -
    have "scan_results ?rs' (map_verdict env ''NT'') 0 = (verdict (?rs' ! i), 0 + i + 1)"
    proof (rule scan_results_first_nonzero)
      show "i < length ?rs'" using that len by simp
      show "verdict (?rs' ! i) \<noteq> 0" using that nth by simp
      show "\<forall>j<i. verdict (?rs' ! j) = 0" using that nth by simp
    qed
    then show ?thesis using eq nth that by simp
  qed
  have zero: "fst (get_attempt_final_info env rs verdicts) = Inr (0, length rs)"
    if "rs \<noteq> []" "\<forall>v\<in>set verdicts. v = 0"
  proof -
    have "\<forall>r\<in>set ?rs'. verdict r = 0"
      using that(2) by (auto dest: set_zip_rightD)
    moreover have "?rs' \<noteq> []" using that(1) assms by (cases rs; cases verdicts) auto
    ultimately have "scan_results ?rs' (map_verdict env ''NT'') 0 = (0, 0 + length ?rs')"
      by (rule scan_results_all_zero)
    then show ?thesis using eq len by simp
  qed
  have empty: "fst (get_attempt_final_info env rs verdicts) = Inr (map_verdict env ''NT'', 0)"
    if "rs = []"
    using that by (simp add: get_attempt_final_info_def)
  show ?thesis using eq len nth first zero empty by simp
qed

theorem get_attempt_final_info_first_failure_witness:
  "fst (get_attempt_final_info example_env [slot ''a'', slot ''b'', slot ''c'', slot ''d''] [0, 0, 3, 0])
     = Inr (3, 3)
   \<and> fst (get_attempt_final_info example_env [slot ''a'', slot ''b'', slot ''c''] [0, 0, 0]) = Inr (0, 3)
   \<and> fst (get_attempt_final_info example_env [] []) = Inr (10, 0)"
proof -
  have a: "fst (get_attempt_final_info example_env
              [slot ''a'', slot ''b'', slot ''c'', slot ''d''] [0, 0, 3, 0]) = Inr (3, 3)"
    using get_attempt_final_info_first_failure
      [of "[slot ''a'', slot ''b'', slot ''c'', slot ''d'']" "[0, 0, 3, 0]" example_env]
    by (simp add: nth_Cons' less_Suc_eq All_less_Suc) 
  have b: "fst (get_attempt_final_info example_env [slot ''a'', slot ''b'', slot ''c''] [0, 0, 0])
      = Inr (0, 3)"
    using get_attempt_final_info_first_failure
      [of "[slot ''a'', slot ''b'', slot ''c'']" "[0, 0, 0]" example_env]
    by simp
  have c: "fst (get_attempt_final_info example_env [] []) = Inr (10, 0)"
    using get_attempt_final_info_first_failure [of "[]" "[]" example_env]
    by (simp add: example_env_def)
  from a b c show ?thesis by simp
qed


subsection \<open>The percentage stored in the snapshot\<close>

text \<open>
  The rounding on known values: the doubles that Python prints as 0.1 and 0.58, the product
  of the latter with 100, and two numbers that are doubles already.
\<close>

lemma round_double_examples:
  "round_double (1 / 10) = 3602879701896397 / 2 ^ 55
   \<and> round_double (29 / 50) = 5224175567749775 / 2 ^ 53
   \<and> round_double (5224175567749775 / 2 ^ 53 * 100) = 8162774324609023 / 2 ^ 47
   \<and> round_double (3 / 4) = 3 / 4
   \<and> round_double 75 = 75"
  by code_simp

text \<open>The two examples of the specification: 3 of 7 gives 42 and 3 of 4 gives 75.\<close>

lemma percent_tests_examples:
  "percent_tests 3 7 = Inr 42 \<and> percent_tests 3 4 = Inr 75"
  by code_simp

lemma percent_tests_empty: "percent_tests p 0 = Inl ZeroDivisionError"
  by (simp add: percent_tests_def)

lemma percent_tests_nonempty: "n \<noteq> 0 \<Longrightarrow> \<exists>pct. percent_tests p n = Inr pct"
  by (simp add: percent_tests_def)

lemma save_task_results_empty:
  "save_task_results env author_login task_spec [] v t s = (Some ZeroDivisionError, s)"
  by (simp add: save_task_results_def percent_tests_def)

lemma save_task_results_nonempty:
  assumes "percent_tests (passed_tests_of env verdicts) (length verdicts) = Inr pct"
  shows "save_task_results env author_login task_spec verdicts v t s =
    (None, s\<lparr>trace := trace s
       @ rating_actions author_login (best_attempt_of (find_user_task_result env task_spec author_login))
           (new_best_attempt_of env (att s)
              (best_attempt_of (find_user_task_result env task_spec author_login))
              (current_attempt (att s) (passed_tests_of env verdicts) pct v t) v pct)
       @ [aggregate_action task_spec author_login (find_user_task_result env task_spec author_login)
            (current_attempt (att s) (passed_tests_of env verdicts) pct v t)
            (new_best_attempt_of env (att s)
              (best_attempt_of (find_user_task_result env task_spec author_login))
              (current_attempt (att s) (passed_tests_of env verdicts) pct v t) v pct)]\<rparr>)"
  using assms by (simp add: save_task_results_def Let_def)

lemma save_task_results_att: "att (snd (save_task_results env a t vs v n s)) = att s"
  by (simp add: save_task_results_def Let_def split: sum.splits)

lemma save_task_results_trace:
  "\<exists>evs. trace (snd (save_task_results env a t vs v n s)) = trace s @ evs
     \<and> filter is_alert evs = [] \<and> filter is_start evs = []"
  by (auto simp: save_task_results_def Let_def rating_actions_def aggregate_action_def
      split: sum.splits option.splits)

text \<open>
  C6. The claim has the stored percentage equal to the floor of passed / total * 100.
  With 29 of 50 verdicts OK the exact value is 58, and the floor of 58 is 58; the code
  divides and multiplies in binary floating point, gets a product just below 58 and stores
  57, in the snapshot that it writes to the aggregate.
\<close>

theorem percent_tests_29_of_50:
  "percent_tests (passed_tests_of example_env (replicate 29 0 @ replicate 21 1))
       (length (replicate 29 (0::int) @ replicate 21 1)) = Inr 57
   \<and> trace (snd (save_task_results example_env ''u1'' ''t1'' (replicate 29 0 @ replicate 21 1) 1 30
         (example_state (replicate 50 (slot ''t'')))))
     = [Insert_user_task_result ''t1'' ''u1''
          [\<lparr>snap_attempt = ''a1'', snap_date = 7, passedTests = 29, percentTests = 57,
            snap_verdict = 1, verdictTest = 30\<rparr>]
          [\<lparr>snap_attempt = ''a1'', snap_date = 7, passedTests = 29, percentTests = 57,
            snap_verdict = 1, verdictTest = 30\<rparr>]]
   \<and> \<lfloor>(29::rat) / 50 * 100\<rfloor> = 58"
proof -
  have passed: "passed_tests_of example_env (replicate 29 0 @ replicate 21 1) = 29"
    by (simp add: passed_tests_of_def example_env_def)
  have len: "length (replicate 29 (0::int) @ replicate 21 1) = 50"
    by simp
  have pct: "percent_tests 29 50 = Inr 57"
    by code_simp
  have pct': "percent_tests (passed_tests_of example_env (replicate 29 0 @ replicate 21 1))
       (length (replicate 29 (0::int) @ replicate 21 1)) = Inr 57"
    using passed len pct by simp
  have exact: "\<lfloor>(29::rat) / 50 * 100\<rfloor> = 58"
    by simp
  have "trace (snd (save_task_results example_env ''u1'' ''t1'' (replicate 29 0 @ replicate 21 1) 1 30
         (example_state (replicate 50 (slot ''t'')))))
     = [Insert_user_task_result ''t1'' ''u1''
          [\<lparr>snap_attempt = ''a1'', snap_date = 7, passedTests = 29, percentTests = 57,
            snap_verdict = 1, verdictTest = 30\<rparr>]
          [\<lparr>snap_attempt = ''a1'', snap_date = 7, passedTests = 29, percentTests = 57,
            snap_verdict = 1, verdictTest = 30\<rparr>]]"
    unfolding save_task_results_nonempty [OF pct'] passed
    by (simp add: example_env_def example_state_def best_attempt_of_def new_best_attempt_of_def
        rating_actions_def aggregate_action_def current_attempt_def)
  with pct' exact show ?thesis by simp
qed

subsection \<open>The writes of \<^verbatim>\<open>_save_results\<close>\<close>

lemma save_results_covered:
  assumes "length (results (att s)) \<le> length verdicts"
  shows "save_results env author_login task_spec verdicts logs s =
    (let rs' = map (\<lambda>(r, v). r\<lparr>verdict := v\<rparr>) (zip (results (att s)) verdicts);
         info = scan_results rs' (map_verdict env ''NT'') 0;
         s3 = s\<lparr>att := (att s)\<lparr>results := rs'\<rparr>,
                trace := trace s @ [Delete_pending (spec (att s)),
                  Save_attempt (spec (att s)) (map_attempt_status env ''finished'')
                    (fst info) (snd info) rs' logs,
                  Set_user_task_status (spec (att s)) (map_attempt_status env ''finished'')]\<rparr>
     in save_task_results env author_login task_spec verdicts (fst info) (snd info) s3)"
  using assms
  by (simp add: save_results_def get_attempt_final_info_covered Let_def emit_def
      save_attempt_results_def split: prod.splits)

lemma save_results_short:
  assumes "length verdicts < length (results (att s))"
  shows "fst (save_results env author_login task_spec verdicts logs s) = Some IndexError
    \<and> trace (snd (save_results env author_login task_spec verdicts logs s)) = trace s"
proof -
  obtain e rs' where a: "assign_verdicts (results (att s)) verdicts = (e, rs')"
    by (cases "assign_verdicts (results (att s)) verdicts")
  with assign_verdicts_short [OF assms] have "e = Some IndexError" by simp
  with a show ?thesis
    by (simp add: save_results_def get_attempt_final_info_def)
qed


lemma generate_tests_verdicts_length [simp]:
  "length (generate_tests_verdicts env name n) = n"
  by (simp add: generate_tests_verdicts_def)

text \<open>
  C7. A call of \<^verbatim>\<open>_save_results\<close> with at least one verdict for every result slot of
  the attempt (so every call on the two fallback paths, which generate one verdict per
  slot, and every call on the success path with a strategy that returns one per slot)
  keeps what was recorded before and adds to it the delete of the pending descriptor of
  the attempt, the update of the attempt document to the status "finished" with the final
  verdict, its test index, the results with their verdicts and the logs, and the update
  of the status mirror to "finished".
\<close>

theorem save_results_terminal_writes:
  assumes "length (results (att s)) \<le> length verdicts"
  shows "\<exists>fv ft.
     fst (get_attempt_final_info env (results (att s)) verdicts) = Inr (fv, ft)
     \<and> take (length (trace s)) (trace (snd (save_results env author_login task_spec verdicts logs s)))
         = trace s
     \<and> Delete_pending (spec (att s))
         \<in> set (drop (length (trace s))
                 (trace (snd (save_results env author_login task_spec verdicts logs s))))
     \<and> Save_attempt (spec (att s)) (map_attempt_status env ''finished'') fv ft
           (snd (get_attempt_final_info env (results (att s)) verdicts)) logs
         \<in> set (drop (length (trace s))
                 (trace (snd (save_results env author_login task_spec verdicts logs s))))
     \<and> Set_user_task_status (spec (att s)) (map_attempt_status env ''finished'')
         \<in> set (drop (length (trace s))
                 (trace (snd (save_results env author_login task_spec verdicts logs s))))"
proof -
  let ?rs' = "map (\<lambda>(r, v). r\<lparr>verdict := v\<rparr>) (zip (results (att s)) verdicts)"
  let ?info = "scan_results ?rs' (map_verdict env ''NT'') 0"
  let ?s3 = "s\<lparr>att := (att s)\<lparr>results := ?rs'\<rparr>,
                trace := trace s @ [Delete_pending (spec (att s)),
                  Save_attempt (spec (att s)) (map_attempt_status env ''finished'')
                    (fst ?info) (snd ?info) ?rs' logs,
                  Set_user_task_status (spec (att s)) (map_attempt_status env ''finished'')]\<rparr>"
  let ?r = "save_task_results env author_login task_spec verdicts (fst ?info) (snd ?info) ?s3"
  obtain mid where mid: "trace (snd ?r) = trace ?s3 @ mid"
    using save_task_results_trace [of env author_login task_spec verdicts "fst ?info" "snd ?info" ?s3]
    by blast
  have info: "get_attempt_final_info env (results (att s)) verdicts = (Inr ?info, ?rs')"
    using assms by (rule get_attempt_final_info_covered)
  have "save_results env author_login task_spec verdicts logs s = ?r"
    using assms by (simp add: save_results_covered Let_def)
  with mid have tr: "trace (snd (save_results env author_login task_spec verdicts logs s)) =
      trace s @ [Delete_pending (spec (att s)),
          Save_attempt (spec (att s)) (map_attempt_status env ''finished'')
            (fst ?info) (snd ?info) ?rs' logs,
          Set_user_task_status (spec (att s)) (map_attempt_status env ''finished'')] @ mid"
    by simp
  show ?thesis
    by (intro exI [of _ "fst ?info"] exI [of _ "snd ?info"]) (simp add: info tr)
qed

theorem save_results_terminal_writes_witness:
  "Delete_pending ''a1''
     \<in> set (trace (snd (save_results example_env ''u1'' ''t1'' [0, 3] [''wrong answer'']
                (example_state [slot ''x'', slot ''y'']))))
   \<and> Save_attempt ''a1'' 2 3 2 [\<lparr>test = ''x'', verdict = 0\<rparr>, \<lparr>test = ''y'', verdict = 3\<rparr>]
        [''wrong answer'']
     \<in> set (trace (snd (save_results example_env ''u1'' ''t1'' [0, 3] [''wrong answer'']
                (example_state [slot ''x'', slot ''y'']))))
   \<and> Set_user_task_status ''a1'' 2
     \<in> set (trace (snd (save_results example_env ''u1'' ''t1'' [0, 3] [''wrong answer'']
                (example_state [slot ''x'', slot ''y'']))))
   \<and> Save_attempt ''a1'' 2 9 1 [\<lparr>test = ''x'', verdict = 9\<rparr>, \<lparr>test = ''y'', verdict = 9\<rparr>]
        [''boom'']
     \<in> set (trace (snd (save_results example_env ''u1'' ''t1''
                (generate_tests_verdicts example_env ''SE'' 2) [''boom'']
                (example_state [slot ''x'', slot ''y'']))))"
proof -
  have len: "length (results (att (example_state [slot ''x'', slot ''y'']))) \<le> length [0::int, 3]"
    by (simp add: example_state_def)
  have info: "get_attempt_final_info example_env [slot ''x'', slot ''y''] [0, 3]
      = (Inr (3, 2), [\<lparr>test = ''x'', verdict = 0\<rparr>, \<lparr>test = ''y'', verdict = 3\<rparr>])"
    by (simp add: get_attempt_final_info_def slot_def)
  have len': "length (results (att (example_state [slot ''x'', slot ''y''])))
      \<le> length (generate_tests_verdicts example_env ''SE'' 2)"
    by (simp add: example_state_def)
  have info': "get_attempt_final_info example_env [slot ''x'', slot ''y'']
        (generate_tests_verdicts example_env ''SE'' 2)
      = (Inr (9, 1), [\<lparr>test = ''x'', verdict = 9\<rparr>, \<lparr>test = ''y'', verdict = 9\<rparr>])"
    by (simp add: get_attempt_final_info_def slot_def generate_tests_verdicts_def
        example_env_def numeral_2_eq_2)
  have a: "Delete_pending ''a1''
       \<in> set (trace (snd (save_results example_env ''u1'' ''t1'' [0, 3] [''wrong answer'']
                (example_state [slot ''x'', slot ''y'']))))
     \<and> Save_attempt ''a1'' 2 3 2 [\<lparr>test = ''x'', verdict = 0\<rparr>, \<lparr>test = ''y'', verdict = 3\<rparr>]
        [''wrong answer'']
       \<in> set (trace (snd (save_results example_env ''u1'' ''t1'' [0, 3] [''wrong answer'']
                (example_state [slot ''x'', slot ''y'']))))
     \<and> Set_user_task_status ''a1'' 2
       \<in> set (trace (snd (save_results example_env ''u1'' ''t1'' [0, 3] [''wrong answer'']
                (example_state [slot ''x'', slot ''y'']))))"
    using save_results_terminal_writes
      [OF len, of example_env "''u1''" "''t1''" "[''wrong answer'']"] info
    by (auto simp: example_state_def example_env_def dest: in_set_dropD)
  have b: "Save_attempt ''a1'' 2 9 1 [\<lparr>test = ''x'', verdict = 9\<rparr>, \<lparr>test = ''y'', verdict = 9\<rparr>]
        [''boom'']
     \<in> set (trace (snd (save_results example_env ''u1'' ''t1''
                (generate_tests_verdicts example_env ''SE'' 2) [''boom'']
                (example_state [slot ''x'', slot ''y'']))))"
    using save_results_terminal_writes
      [OF len', of example_env "''u1''" "''t1''" "[''boom'']"] info'
    by (auto simp: example_state_def example_env_def dest: in_set_dropD)
  from a b show ?thesis by simp
qed

text \<open>
  Without a verdict for every slot the same call does none of this. The claim as it is
  written, for every call, fails where the verdicts are fewer than
  the result slots: with two slots and one verdict the second assignment raises IndexError
  and the call ends there, with none of the three writes issued.
\<close>

theorem save_results_one_verdict_short:
  "save_results example_env ''u1'' ''t1'' [0] [''log''] (example_state [slot ''x'', slot ''y'']) =
     (Some IndexError,
      \<lparr>att = \<lparr>spec = ''a1'', date = 7, language = ''py'',
               results = [\<lparr>test = ''x'', verdict = 0\<rparr>, \<lparr>test = ''y'', verdict = 0\<rparr>],
               text_answers = []\<rparr>,
       trace = []\<rparr>)"
  by (simp add: save_results_def get_attempt_final_info_def example_state_def slot_def)

text \<open>
  C9. With no verdicts the percentage divides by zero: \<^verbatim>\<open>_save_task_results\<close> raises
  ZeroDivisionError before it reads or writes anything, so for an attempt without result
  slots \<^verbatim>\<open>_save_results\<close> raises it too and no write to the aggregate is issued.
\<close>

theorem zero_tests_division_by_zero:
  assumes "results (att s) = []"
  shows "percent_tests (passed_tests_of env []) (length ([] :: int list)) = Inl ZeroDivisionError
    \<and> save_task_results env author_login task_spec [] v t s = (Some ZeroDivisionError, s)
    \<and> fst (save_results env author_login task_spec [] logs s) = Some ZeroDivisionError
    \<and> filter is_aggregate_write (trace (snd (save_results env author_login task_spec [] logs s)))
        = filter is_aggregate_write (trace s)"
proof -
  have "length (results (att s)) \<le> length ([] :: int list)"
    using assms by simp
  then have "save_results env author_login task_spec [] logs s =
      (Some ZeroDivisionError,
       s\<lparr>att := (att s)\<lparr>results := []\<rparr>,
         trace := trace s @ [Delete_pending (spec (att s)),
           Save_attempt (spec (att s)) (map_attempt_status env ''finished'')
             (map_verdict env ''NT'') 0 [] logs,
           Set_user_task_status (spec (att s)) (map_attempt_status env ''finished'')]\<rparr>)"
    using assms by (simp add: save_results_covered save_task_results_empty Let_def emit_def)
  then show ?thesis
    by (simp add: percent_tests_empty save_task_results_empty)
qed

theorem zero_tests_division_by_zero_witness:
  "save_results example_env ''u1'' ''t1'' [] [''log''] (example_state []) =
     (Some ZeroDivisionError,
      \<lparr>att = \<lparr>spec = ''a1'', date = 7, language = ''py'', results = [], text_answers = []\<rparr>,
       trace = [Delete_pending ''a1'', Save_attempt ''a1'' 2 10 0 [] [''log''],
                Set_user_task_status ''a1'' 2]\<rparr>)"
proof -
  have r: "results (att (example_state [])) = []"
    by (simp add: example_state_def)
  have "fst (save_results example_env ''u1'' ''t1'' [] [''log''] (example_state []))
      = Some ZeroDivisionError"
    using zero_tests_division_by_zero [OF r] by simp
  moreover have "snd (save_results example_env ''u1'' ''t1'' [] [''log''] (example_state [])) =
      \<lparr>att = \<lparr>spec = ''a1'', date = 7, language = ''py'', results = [], text_answers = []\<rparr>,
       trace = [Delete_pending ''a1'', Save_attempt ''a1'' 2 10 0 [] [''log''],
                Set_user_task_status ''a1'' 2]\<rparr>"
    by (simp add: save_results_covered save_task_results_empty Let_def emit_def
        example_state_def example_env_def)
  ultimately show ?thesis by (simp add: prod_eq_iff)
qed

subsection \<open>The rating and the best attempt\<close>

lemma percent_tests_2_of_2: "percent_tests 2 2 = Inr 100"
  by code_simp

text \<open>
  C4. The writes to the rating that \<^verbatim>\<open>_save_task_results\<close> issues are exactly one
  increment of the score by 1, as an upsert, when the chosen new best has the verdict 0
  and there is no previous best or the verdict of the previous best is not 0; in every
  other case, also when the percentage raised and nothing was chosen, there is none.
\<close>
theorem rating_incremented_iff:
  "filter is_rating_write
     (drop (length (trace s))
        (trace (snd (save_task_results env author_login task_spec verdicts v t s)))) =
   (case percent_tests (passed_tests_of env verdicts) (length verdicts) of
      Inl e \<Rightarrow> []
    | Inr pct \<Rightarrow>
        if snap_verdict (new_best_attempt_of env (att s)
               (best_attempt_of (find_user_task_result env task_spec author_login))
               (current_attempt (att s) (passed_tests_of env verdicts) pct v t) v pct) = 0
           \<and> (best_attempt_of (find_user_task_result env task_spec author_login) = None
              \<or> snap_verdict (the (best_attempt_of (find_user_task_result env task_spec author_login)))
                  \<noteq> 0)
        then [Inc_rating author_login 1 True] else [])"
proof (cases "percent_tests (passed_tests_of env verdicts) (length verdicts)")
  case (Inl e)
  then show ?thesis by (simp add: save_task_results_def)
next
  case (Inr pct)
  show ?thesis
    unfolding save_task_results_nonempty [OF Inr]
    by (cases "best_attempt_of (find_user_task_result env task_spec author_login)")
       (auto simp: Inr rating_actions_def aggregate_action_def split: option.splits)
qed

theorem rating_incremented_iff_witness:
  "filter is_rating_write
     (drop (length (trace (example_state [slot ''x'', slot ''y''])))
        (trace (snd (save_task_results (example_env_with_best (example_best 3 40)) ''u1'' ''t1''
           [0, 0] 0 2 (example_state [slot ''x'', slot ''y''])))))
     = [Inc_rating ''u1'' 1 True]
   \<and> filter is_rating_write
     (drop (length (trace (example_state [slot ''x'', slot ''y''])))
        (trace (snd (save_task_results (example_env_with_best (example_best 0 100)) ''u1'' ''t1''
           [0, 0] 0 2 (example_state [slot ''x'', slot ''y''])))))
     = []"
proof -
  have p: "passed_tests_of (example_env_with_best b) [0, 0] = 2" for b
    by (simp add: passed_tests_of_def example_env_with_best_def example_env_def)
  have l: "length [0::int, 0] = 2" by simp
  have pc: "percent_tests (passed_tests_of (example_env_with_best b) [0, 0]) (length [0::int, 0])
      = Inr 100" for b
    by (simp only: p l percent_tests_2_of_2)
  have a: "filter is_rating_write
     (drop (length (trace (example_state [slot ''x'', slot ''y''])))
        (trace (snd (save_task_results (example_env_with_best (example_best 3 40)) ''u1'' ''t1''
           [0, 0] 0 2 (example_state [slot ''x'', slot ''y''])))))
     = [Inc_rating ''u1'' 1 True]"
    unfolding rating_incremented_iff pc
    by (simp add: p best_attempt_of_def new_best_attempt_of_def
        current_attempt_def example_env_with_best_def example_env_def example_best_def)
  have b: "filter is_rating_write
     (drop (length (trace (example_state [slot ''x'', slot ''y''])))
        (trace (snd (save_task_results (example_env_with_best (example_best 0 100)) ''u1'' ''t1''
           [0, 0] 0 2 (example_state [slot ''x'', slot ''y''])))))
     = []"
    unfolding rating_incremented_iff pc
    by (simp add: p best_attempt_of_def new_best_attempt_of_def
        current_attempt_def example_env_with_best_def example_env_def example_best_def)
  from a b show ?thesis by simp
qed

text \<open>
  For a verdicts list that is not empty the percentage is defined, and the one write to the
  aggregate is as the merge rule says: the insert of the snapshot as result and as best
  when there is no aggregate; otherwise the push of the snapshot to the results, and to the
  bests the previous best with the date of this attempt when a previous best exists and
  both verdicts are OK or its percentage is greater, else the snapshot.
\<close>

lemma new_best_of_graded_attempt:
  assumes "percent_tests (passed_tests_of env verdicts) (length verdicts) = Inr pct"
  shows "filter is_aggregate_write
     (drop (length (trace s))
        (trace (snd (save_task_results env author_login task_spec verdicts v t s)))) =
   [case find_user_task_result env task_spec author_login of
      None \<Rightarrow>
        Insert_user_task_result task_spec author_login
          [current_attempt (att s) (passed_tests_of env verdicts) pct v t]
          [current_attempt (att s) (passed_tests_of env verdicts) pct v t]
    | Some d \<Rightarrow>
        if utr_bests d \<noteq> []
           \<and> ((snap_verdict (last (utr_bests d)) = v \<and> v = map_verdict env ''OK'')
              \<or> pct < percentTests (last (utr_bests d)))
        then Push_user_task_result task_spec author_login
               (current_attempt (att s) (passed_tests_of env verdicts) pct v t)
               ((last (utr_bests d))\<lparr>snap_date := date (att s)\<rparr>)
        else Push_user_task_result task_spec author_login
               (current_attempt (att s) (passed_tests_of env verdicts) pct v t)
               (current_attempt (att s) (passed_tests_of env verdicts) pct v t)]"
  unfolding save_task_results_nonempty [OF assms]
  by (auto simp: rating_actions_def aggregate_action_def best_attempt_of_def
      new_best_attempt_of_def split: option.splits)

text \<open>
  C5. The claim has the snapshot of the current attempt always appended to the results of
  the aggregate, with the new best beside it. For an attempt without result slots the
  verdicts are empty, the percentage divides by zero and \<^verbatim>\<open>_save_task_results\<close>
  raises before the aggregate is read: with a previous best at hand, nothing is appended,
  neither by the function itself nor by \<^verbatim>\<open>_save_results\<close> around it.
\<close>

theorem zero_tests_no_snapshot_appended:
  "save_task_results (example_env_with_best (example_best 0 100)) ''u1'' ''t1'' [] 10 0
       (example_state [])
     = (Some ZeroDivisionError, example_state [])
   \<and> filter is_aggregate_write
       (trace (snd (save_results (example_env_with_best (example_best 0 100)) ''u1'' ''t1'' []
          [''log''] (example_state [])))) = []"
proof -
  have "save_results (example_env_with_best (example_best 0 100)) ''u1'' ''t1'' [] [''log'']
      (example_state []) =
      (Some ZeroDivisionError,
       \<lparr>att = \<lparr>spec = ''a1'', date = 7, language = ''py'', results = [], text_answers = []\<rparr>,
        trace = [Delete_pending ''a1'', Save_attempt ''a1'' 2 10 0 [] [''log''],
                 Set_user_task_status ''a1'' 2]\<rparr>)"
    by (simp add: save_results_covered save_task_results_empty Let_def emit_def
        example_state_def example_env_with_best_def example_env_def)
  then show ?thesis
    by (simp add: save_task_results_empty)
qed

subsection \<open>The supervising wrapper\<close>

lemma example_env_simps:
  "map_verdict example_env ''OK'' = 0"
  "map_verdict example_env ''NT'' = 10"
  "map_verdict example_env ''SE'' = 9"
  "map_attempt_status example_env ''testing'' = 1"
  "map_attempt_status example_env ''finished'' = 2"
  "modified_count example_env a = 1"
  "find_user_task_result example_env t u = None"
  by (simp_all add: example_env_def)

lemma example_env_lease_lost_simps:
  "map_verdict example_env_lease_lost ''OK'' = 0"
  "map_verdict example_env_lease_lost ''NT'' = 10"
  "map_verdict example_env_lease_lost ''SE'' = 9"
  "map_attempt_status example_env_lease_lost ''testing'' = 1"
  "map_attempt_status example_env_lease_lost ''finished'' = 2"
  "modified_count example_env_lease_lost a = 0"
  "find_user_task_result example_env_lease_lost t u = None"
  by (simp_all add: example_env_lease_lost_def example_env_def)

lemma save_results_trace:
  "\<exists>evs. trace (snd (save_results env a t vs logs s)) = trace s @ evs
     \<and> filter is_alert evs = [] \<and> filter is_start evs = []"
proof (cases "length (results (att s)) \<le> length vs")
  case True
  let ?rs' = "map (\<lambda>(r, v). r\<lparr>verdict := v\<rparr>) (zip (results (att s)) vs)"
  let ?info = "scan_results ?rs' (map_verdict env ''NT'') 0"
  let ?s3 = "s\<lparr>att := (att s)\<lparr>results := ?rs'\<rparr>,
                trace := trace s @ [Delete_pending (spec (att s)),
                  Save_attempt (spec (att s)) (map_attempt_status env ''finished'')
                    (fst ?info) (snd ?info) ?rs' logs,
                  Set_user_task_status (spec (att s)) (map_attempt_status env ''finished'')]\<rparr>"
  obtain mid where mid: "trace (snd (save_task_results env a t vs (fst ?info) (snd ?info) ?s3))
      = trace ?s3 @ mid" "filter is_alert mid = []" "filter is_start mid = []"
    using save_task_results_trace [of env a t vs "fst ?info" "snd ?info" ?s3] by blast
  have "trace (snd (save_results env a t vs logs s)) =
      trace s @ ([Delete_pending (spec (att s)),
          Save_attempt (spec (att s)) (map_attempt_status env ''finished'')
            (fst ?info) (snd ?info) ?rs' logs,
          Set_user_task_status (spec (att s)) (map_attempt_status env ''finished'')] @ mid)"
    using True mid(1) by (simp add: save_results_covered Let_def)
  moreover have "filter is_alert ([Delete_pending (spec (att s)),
          Save_attempt (spec (att s)) (map_attempt_status env ''finished'')
            (fst ?info) (snd ?info) ?rs' logs,
          Set_user_task_status (spec (att s)) (map_attempt_status env ''finished'')] @ mid) = []"
    using mid(2) by simp
  moreover have "filter is_start ([Delete_pending (spec (att s)),
          Save_attempt (spec (att s)) (map_attempt_status env ''finished'')
            (fst ?info) (snd ?info) ?rs' logs,
          Set_user_task_status (spec (att s)) (map_attempt_status env ''finished'')] @ mid) = []"
    using mid(3) by simp
  ultimately show ?thesis by blast
next
  case False
  then have "trace (snd (save_results env a t vs logs s)) = trace s @ []"
    using save_results_short [of vs s env a t logs] by simp
  then show ?thesis by (intro exI [of _ "[]"]) simp
qed

lemma save_task_results_att_pair:
  "save_task_results env a t vs v n s = (r, s') \<Longrightarrow> att s' = att s"
  using save_task_results_att [of env a t vs v n s] by simp

lemma save_results_att:
  "att (snd (save_results env a t vs logs s))
     = (att s)\<lparr>results := snd (assign_verdicts (results (att s)) vs)\<rparr>"
proof -
  obtain e rs' where a: "assign_verdicts (results (att s)) vs = (e, rs')"
    by (cases "assign_verdicts (results (att s)) vs")
  show ?thesis
  proof (cases e)
    case None
    obtain fv ft where info: "scan_results rs' (map_verdict env ''NT'') 0 = (fv, ft)"
      by (cases "scan_results rs' (map_verdict env ''NT'') 0")
    from a None info show ?thesis
      by (simp add: save_results_def get_attempt_final_info_def Let_def emit_def
          save_attempt_results_def save_task_results_att)
  next
    case (Some x)
    with a show ?thesis
      by (simp add: save_results_def get_attempt_final_info_def)
  qed
qed

lemma save_results_spec: "spec (att (snd (save_results env a t vs logs s))) = spec (att s)"
  by (simp add: save_results_att)

lemma save_results_length:
  "length (results (att (snd (save_results env a t vs logs s)))) = length (results (att s))"
  by (simp add: save_results_att assign_verdicts_length)

lemma soft_run_returns: "fst (soft_run env func author_login task_spec s) = None"
  by (simp add: soft_run_def Let_def split: prod.splits option.splits)

lemma soft_run_no_exception:
  "func author_login task_spec s = (None, s1) \<Longrightarrow>
   soft_run env func author_login task_spec s = (None, s1)"
  by (simp add: soft_run_def)

lemma percent_tests_0_of_2: "percent_tests 0 2 = Inr 0"
  by code_simp

text \<open>
  C2. Whatever handler is wrapped (the three handlers are bodies under this wrapper) and
  whatever it raises: the wrapper sends one alert of the kind ManagerError with the spec
  of the attempt, a newline and the description of the exception, then calls
  \<^verbatim>\<open>_save_results\<close> with the code of SE once per result slot and the description as
  the only log entry, and returns without an exception. When that save raises, it sends
  one more alert, of the kind "ManagerError (when saving results)", and returns all the
  same. The alerts added after the handler left are one, or two in the second case.
\<close>

theorem soft_run_contains_failure:
  assumes "func author_login task_spec s = (Some manager_exc, s1)"
  shows "(let s2 = emit (Alert ''ManagerError'' (spec (att s1) @ [CHR 0x0A] @ str manager_exc)) s1;
              r = save_results env author_login task_spec
                    (replicate (length (results (att s1))) (map_verdict env ''SE''))
                    [str manager_exc] s2
          in soft_run env func author_login task_spec s =
               (None,
                case fst r of
                  None \<Rightarrow> snd r
                | Some saving_exception \<Rightarrow>
                    emit (Alert ''ManagerError (when saving results)''
                            (spec (att s1) @ [CHR 0x0A] @ str saving_exception)) (snd r))
             \<and> length (filter is_alert (drop (length (trace s1))
                   (trace (snd (soft_run env func author_login task_spec s)))))
                 = (case fst r of None \<Rightarrow> 1 | Some saving_exception \<Rightarrow> 2))"
proof -
  let ?s2 = "emit (Alert ''ManagerError'' (spec (att s1) @ [CHR 0x0A] @ str manager_exc)) s1"
  let ?r = "save_results env author_login task_spec
              (replicate (length (results (att s1))) (map_verdict env ''SE''))
              [str manager_exc] ?s2"
  obtain e s3 where r: "?r = (e, s3)" by (cases ?r)
  have sp: "spec (att s3) = spec (att s1)"
    using save_results_spec [of env author_login task_spec
        "replicate (length (results (att s1))) (map_verdict env ''SE'')" "[str manager_exc]" ?s2] r
    by (simp add: emit_def)
  obtain evs where evs: "trace s3 = trace ?s2 @ evs" "filter is_alert evs = []"
    using save_results_trace [of env author_login task_spec
        "replicate (length (results (att s1))) (map_verdict env ''SE'')" "[str manager_exc]" ?s2] r
    by auto
  have run: "soft_run env func author_login task_spec s =
      (None, case e of None \<Rightarrow> s3
             | Some saving_exception \<Rightarrow>
                 emit (Alert ''ManagerError (when saving results)''
                         (spec (att s1) @ [CHR 0x0A] @ str saving_exception)) s3)"
    using assms r sp
    by (simp add: soft_run_def send_alert_def generate_tests_verdicts_def emit_def
        split: option.splits)
  have count: "length (filter is_alert (drop (length (trace s1))
        (trace (snd (soft_run env func author_login task_spec s)))))
      = (case e of None \<Rightarrow> 1 | Some saving_exception \<Rightarrow> 2)"
    using evs by (simp add: run emit_def split: option.splits)
  show ?thesis
    unfolding Let_def r using run count by (simp split: option.splits)
qed

theorem soft_run_contains_failure_witness:
  "soft_run example_env failing_handler ''u1'' ''t1''
       (example_state [slot ''x'', slot ''y'']) =
     (None,
      \<lparr>att = \<lparr>spec = ''a1'', date = 7, language = ''py'',
               results = [\<lparr>test = ''x'', verdict = 9\<rparr>, \<lparr>test = ''y'', verdict = 9\<rparr>],
               text_answers = []\<rparr>,
       trace = [Alert ''ManagerError'' (''a1'' @ [CHR 0x0A] @ ''boom''),
                Delete_pending ''a1'',
                Save_attempt ''a1'' 2 9 1
                  [\<lparr>test = ''x'', verdict = 9\<rparr>, \<lparr>test = ''y'', verdict = 9\<rparr>] [''boom''],
                Set_user_task_status ''a1'' 2,
                Insert_user_task_result ''t1'' ''u1''
                  [\<lparr>snap_attempt = ''a1'', snap_date = 7, passedTests = 0, percentTests = 0,
                    snap_verdict = 9, verdictTest = 1\<rparr>]
                  [\<lparr>snap_attempt = ''a1'', snap_date = 7, passedTests = 0, percentTests = 0,
                    snap_verdict = 9, verdictTest = 1\<rparr>]]\<rparr>)
   \<and> soft_run example_env failing_handler ''u1'' ''t1''
       (example_state []) =
     (None,
      \<lparr>att = \<lparr>spec = ''a1'', date = 7, language = ''py'', results = [], text_answers = []\<rparr>,
       trace = [Alert ''ManagerError'' (''a1'' @ [CHR 0x0A] @ ''boom''),
                Delete_pending ''a1'',
                Save_attempt ''a1'' 2 10 0 [] [''boom''],
                Set_user_task_status ''a1'' 2,
                Alert ''ManagerError (when saving results)''
                  (''a1'' @ [CHR 0x0A] @ ''division by zero'')]\<rparr>)"
proof -
  let ?func = failing_handler
  have two: "save_results example_env ''u1'' ''t1'' [9, 9] [''boom'']
        (emit (Alert ''ManagerError'' (''a1'' @ [CHR 0x0A] @ ''boom''))
           (example_state [slot ''x'', slot ''y''])) =
      (None,
      \<lparr>att = \<lparr>spec = ''a1'', date = 7, language = ''py'',
               results = [\<lparr>test = ''x'', verdict = 9\<rparr>, \<lparr>test = ''y'', verdict = 9\<rparr>],
               text_answers = []\<rparr>,
       trace = [Alert ''ManagerError'' (''a1'' @ [CHR 0x0A] @ ''boom''),
                Delete_pending ''a1'',
                Save_attempt ''a1'' 2 9 1
                  [\<lparr>test = ''x'', verdict = 9\<rparr>, \<lparr>test = ''y'', verdict = 9\<rparr>] [''boom''],
                Set_user_task_status ''a1'' 2,
                Insert_user_task_result ''t1'' ''u1''
                  [\<lparr>snap_attempt = ''a1'', snap_date = 7, passedTests = 0, percentTests = 0,
                    snap_verdict = 9, verdictTest = 1\<rparr>]
                  [\<lparr>snap_attempt = ''a1'', snap_date = 7, passedTests = 0, percentTests = 0,
                    snap_verdict = 9, verdictTest = 1\<rparr>]]\<rparr>)"
  proof -
    have pt: "percent_tests (passed_tests_of example_env [9, 9]) (length [9::int, 9]) = Inr 0"
    proof -
      have "passed_tests_of example_env [9, 9] = 0"
        by (simp add: passed_tests_of_def example_env_simps)
      moreover have "length [9::int, 9] = 2" by simp
      ultimately show ?thesis by (simp only: percent_tests_0_of_2)
    qed
    show ?thesis
      by (simp add: save_results_covered save_task_results_nonempty [OF pt] Let_def emit_def
          example_state_def example_env_simps slot_def passed_tests_of_def current_attempt_def
          best_attempt_of_def new_best_attempt_of_def rating_actions_def aggregate_action_def)
  qed
  have none: "save_results example_env ''u1'' ''t1'' [] [''boom'']
        (emit (Alert ''ManagerError'' (''a1'' @ [CHR 0x0A] @ ''boom'')) (example_state [])) =
      (Some ZeroDivisionError,
      \<lparr>att = \<lparr>spec = ''a1'', date = 7, language = ''py'', results = [], text_answers = []\<rparr>,
       trace = [Alert ''ManagerError'' (''a1'' @ [CHR 0x0A] @ ''boom''),
                Delete_pending ''a1'',
                Save_attempt ''a1'' 2 10 0 [] [''boom''],
                Set_user_task_status ''a1'' 2]\<rparr>)"
    by (simp add: save_results_covered save_task_results_empty Let_def emit_def
        example_state_def example_env_simps)
  have f2: "?func ''u1'' ''t1'' (example_state [slot ''x'', slot ''y''])
      = (Some (Raised ''boom''), example_state [slot ''x'', slot ''y''])"
    by (simp add: failing_handler_def)
  have f0: "?func ''u1'' ''t1'' (example_state []) = (Some (Raised ''boom''), example_state [])"
    by (simp add: failing_handler_def)
  have a: "snd (soft_run example_env ?func ''u1'' ''t1'' (example_state [slot ''x'', slot ''y''])) =
      \<lparr>att = \<lparr>spec = ''a1'', date = 7, language = ''py'',
               results = [\<lparr>test = ''x'', verdict = 9\<rparr>, \<lparr>test = ''y'', verdict = 9\<rparr>],
               text_answers = []\<rparr>,
       trace = [Alert ''ManagerError'' (''a1'' @ [CHR 0x0A] @ ''boom''),
                Delete_pending ''a1'',
                Save_attempt ''a1'' 2 9 1
                  [\<lparr>test = ''x'', verdict = 9\<rparr>, \<lparr>test = ''y'', verdict = 9\<rparr>] [''boom''],
                Set_user_task_status ''a1'' 2,
                Insert_user_task_result ''t1'' ''u1''
                  [\<lparr>snap_attempt = ''a1'', snap_date = 7, passedTests = 0, percentTests = 0,
                    snap_verdict = 9, verdictTest = 1\<rparr>]
                  [\<lparr>snap_attempt = ''a1'', snap_date = 7, passedTests = 0, percentTests = 0,
                    snap_verdict = 9, verdictTest = 1\<rparr>]]\<rparr>"
    using soft_run_contains_failure [where func = failing_handler and env = example_env, OF f2] two
    by (simp add: Let_def example_state_def example_env_simps)
  have b: "snd (soft_run example_env ?func ''u1'' ''t1'' (example_state [])) =
      \<lparr>att = \<lparr>spec = ''a1'', date = 7, language = ''py'', results = [], text_answers = []\<rparr>,
       trace = [Alert ''ManagerError'' (''a1'' @ [CHR 0x0A] @ ''boom''),
                Delete_pending ''a1'',
                Save_attempt ''a1'' 2 10 0 [] [''boom''],
                Set_user_task_status ''a1'' 2,
                Alert ''ManagerError (when saving results)''
                  (''a1'' @ [CHR 0x0A] @ ''division by zero'')]\<rparr>"
    using soft_run_contains_failure [where func = failing_handler and env = example_env, OF f0] none
    by (simp add: Let_def example_state_def example_env_simps emit_def)
  from a b show ?thesis
    by (simp add: prod_eq_iff soft_run_returns)
qed

subsection \<open>The lease and the handlers\<close>

lemma assign_uniform:
  "map (\<lambda>(r, v). r\<lparr>verdict := v\<rparr>) (zip rs (replicate (length rs) c))
     = map (\<lambda>r. r\<lparr>verdict := c\<rparr>) rs"
  by (induction rs) auto

lemma save_results_fallback_trace:
  "\<exists>fv ft mid.
     trace (snd (save_results env a t
        (generate_tests_verdicts env name (length (results (att s)))) logs s)) =
       trace s
       @ [Delete_pending (spec (att s)),
          Save_attempt (spec (att s)) (map_attempt_status env ''finished'') fv ft
            (map (\<lambda>r. r\<lparr>verdict := map_verdict env name\<rparr>) (results (att s))) logs,
          Set_user_task_status (spec (att s)) (map_attempt_status env ''finished'')]
       @ mid
     \<and> filter is_alert mid = [] \<and> filter is_start mid = []"
proof -
  let ?vs = "generate_tests_verdicts env name (length (results (att s)))"
  let ?rs' = "map (\<lambda>r. r\<lparr>verdict := map_verdict env name\<rparr>) (results (att s))"
  let ?info = "scan_results ?rs' (map_verdict env ''NT'') 0"
  let ?s3 = "s\<lparr>att := (att s)\<lparr>results := ?rs'\<rparr>,
                trace := trace s @ [Delete_pending (spec (att s)),
                  Save_attempt (spec (att s)) (map_attempt_status env ''finished'')
                    (fst ?info) (snd ?info) ?rs' logs,
                  Set_user_task_status (spec (att s)) (map_attempt_status env ''finished'')]\<rparr>"
  have rs': "map (\<lambda>(r, v). r\<lparr>verdict := v\<rparr>) (zip (results (att s)) ?vs) = ?rs'"
    by (simp add: generate_tests_verdicts_def assign_uniform)
  obtain mid where mid: "trace (snd (save_task_results env a t ?vs (fst ?info) (snd ?info) ?s3))
      = trace ?s3 @ mid" "filter is_alert mid = []" "filter is_start mid = []"
    using save_task_results_trace [of env a t ?vs "fst ?info" "snd ?info" ?s3] by blast
  have "save_results env a t ?vs logs s =
      save_task_results env a t ?vs (fst ?info) (snd ?info) ?s3"
    by (simp add: save_results_covered rs' Let_def)
  with mid have "trace (snd (save_results env a t ?vs logs s)) =
      trace s @ [Delete_pending (spec (att s)),
          Save_attempt (spec (att s)) (map_attempt_status env ''finished'')
            (fst ?info) (snd ?info) ?rs' logs,
          Set_user_task_status (spec (att s)) (map_attempt_status env ''finished'')] @ mid"
    by simp
  with mid(2,3) show ?thesis by blast
qed

lemma set_testing_claimed:
  assumes "modified_count env (spec (att s)) = 1"
  shows "set_testing env a t s =
    (Inr True,
     emit (Set_user_task_status (spec (att s)) (map_attempt_status env ''testing''))
       (emit (Set_attempt_status (spec (att s)) (map_attempt_status env ''testing'')) s))"
  using assms by (simp add: set_testing_def Let_def emit_def)

lemma set_testing_lost:
  assumes "modified_count env (spec (att s)) \<noteq> 1"
  shows "set_testing env a t s =
    (case save_results env a t (generate_tests_verdicts env ''NT'' (length (results (att s))))
            [''Error in setting testing status'']
            (emit (Set_user_task_status (spec (att s)) (map_attempt_status env ''testing''))
               (emit (Set_attempt_status (spec (att s)) (map_attempt_status env ''testing'')) s)) of
       (Some e, s3) \<Rightarrow> (Inl e, s3)
     | (None, s3) \<Rightarrow> (Inr False, s3))"
  using assms by (simp add: set_testing_def Let_def emit_def)

lemma percent_tests_0_of_1: "percent_tests 0 1 = Inr 0"
  by code_simp

lemma lease_lost_example:
  "set_testing example_env_lease_lost ''u1'' ''t1'' (example_state [slot ''x'']) =
     (Inr False,
      \<lparr>att = \<lparr>spec = ''a1'', date = 7, language = ''py'',
               results = [\<lparr>test = ''x'', verdict = 10\<rparr>], text_answers = []\<rparr>,
       trace = [Set_attempt_status ''a1'' 1, Set_user_task_status ''a1'' 1,
                Delete_pending ''a1'',
                Save_attempt ''a1'' 2 10 1 [\<lparr>test = ''x'', verdict = 10\<rparr>]
                  [''Error in setting testing status''],
                Set_user_task_status ''a1'' 2,
                Insert_user_task_result ''t1'' ''u1''
                  [\<lparr>snap_attempt = ''a1'', snap_date = 7, passedTests = 0, percentTests = 0,
                    snap_verdict = 10, verdictTest = 1\<rparr>]
                  [\<lparr>snap_attempt = ''a1'', snap_date = 7, passedTests = 0, percentTests = 0,
                    snap_verdict = 10, verdictTest = 1\<rparr>]]\<rparr>)"
proof -
  have pt: "percent_tests (passed_tests_of example_env_lease_lost [10]) (length [10::int]) = Inr 0"
  proof -
    have "passed_tests_of example_env_lease_lost [10] = 0"
      by (simp add: passed_tests_of_def example_env_lease_lost_simps)
    moreover have "length [10::int] = 1" by simp
    ultimately show ?thesis by (simp only: percent_tests_0_of_1)
  qed
  have mc: "modified_count example_env_lease_lost (spec (att (example_state [slot ''x'']))) \<noteq> 1"
    by (simp add: example_env_lease_lost_simps)
  show ?thesis
    unfolding set_testing_lost [OF mc]
    by (simp add: save_results_covered save_task_results_nonempty [OF pt] Let_def emit_def
        generate_tests_verdicts_def example_state_def example_env_lease_lost_simps slot_def
        passed_tests_of_def current_attempt_def best_attempt_of_def new_best_attempt_of_def
        rating_actions_def aggregate_action_def)
qed

text \<open>
  C3. \<^verbatim>\<open>_set_testing\<close> returns true exactly when the store reports one modified
  document for the update of the attempt. When it returns false, the fallback has been
  saved before: \<^verbatim>\<open>_save_results\<close> ran, without an exception, with the code of NT once
  per result slot and the log "Error in setting testing status", and the update of the
  attempt with these verdicts is in the trace. No strategy was started. Each of the three
  handlers then returns at once, without an exception, in the state that
  \<^verbatim>\<open>_set_testing\<close> left.
\<close>

theorem set_testing_lease:
  "(fst (set_testing env a t s) = Inr True \<longleftrightarrow> modified_count env (spec (att s)) = 1)
   \<and> (fst (set_testing env a t s) = Inr False \<longrightarrow>
        save_results env a t (generate_tests_verdicts env ''NT'' (length (results (att s))))
            [''Error in setting testing status'']
            (emit (Set_user_task_status (spec (att s)) (map_attempt_status env ''testing''))
               (emit (Set_attempt_status (spec (att s)) (map_attempt_status env ''testing'')) s))
          = (None, snd (set_testing env a t s))
        \<and> (\<exists>fv ft. Save_attempt (spec (att s)) (map_attempt_status env ''finished'') fv ft
               (map (\<lambda>r. r\<lparr>verdict := map_verdict env ''NT''\<rparr>) (results (att s)))
               [''Error in setting testing status'']
             \<in> set (trace (snd (set_testing env a t s))))
        \<and> filter is_start (trace (snd (set_testing env a t s))) = filter is_start (trace s)
        \<and> handle_text_task env task_tests test_groups queue_item a t s
            = (None, snd (set_testing env a t s))
        \<and> handle_tests_checker env grouped_tests queue_item a t s
            = (None, snd (set_testing env a t s))
        \<and> handle_custom_checker env grouped_tests queue_item a t s
            = (None, snd (set_testing env a t s)))"
proof (cases "modified_count env (spec (att s)) = 1")
  case True
  then show ?thesis by (simp add: set_testing_claimed)
next
  case False
  let ?s2 = "emit (Set_user_task_status (spec (att s)) (map_attempt_status env ''testing''))
               (emit (Set_attempt_status (spec (att s)) (map_attempt_status env ''testing'')) s)"
  let ?save = "save_results env a t (generate_tests_verdicts env ''NT'' (length (results (att s))))
            [''Error in setting testing status''] ?s2"
  obtain e s3 where save: "?save = (e, s3)" by (cases ?save)
  have st: "set_testing env a t s = (case e of Some x \<Rightarrow> (Inl x, s3) | None \<Rightarrow> (Inr False, s3))"
    using set_testing_lost [OF False, of a t] save by (simp split: option.splits)
  have not_true: "fst (set_testing env a t s) \<noteq> Inr True"
    using st by (simp split: option.splits)
  have lost: ?thesis if ret: "fst (set_testing env a t s) = Inr False"
  proof -
    from ret st have e: "e = None" by (simp split: option.splits)
    with st have st': "set_testing env a t s = (Inr False, s3)" by simp
    have "att ?s2 = att s" "trace ?s2 = trace s @ [Set_attempt_status (spec (att s))
        (map_attempt_status env ''testing''), Set_user_task_status (spec (att s))
        (map_attempt_status env ''testing'')]"
      by (simp_all add: emit_def)
    with save_results_fallback_trace [of env a t "''NT''" ?s2 "[''Error in setting testing status'']"]
      save
    obtain fv ft mid where tr: "trace s3 = trace s @ [Set_attempt_status (spec (att s))
        (map_attempt_status env ''testing''), Set_user_task_status (spec (att s))
        (map_attempt_status env ''testing'')]
       @ [Delete_pending (spec (att s)),
          Save_attempt (spec (att s)) (map_attempt_status env ''finished'') fv ft
            (map (\<lambda>r. r\<lparr>verdict := map_verdict env ''NT''\<rparr>) (results (att s)))
            [''Error in setting testing status''],
          Set_user_task_status (spec (att s)) (map_attempt_status env ''finished'')]
       @ mid"
      and mid: "filter is_start mid = []"
      by auto
    have sa: "\<exists>fv ft. Save_attempt (spec (att s)) (map_attempt_status env ''finished'') fv ft
               (map (\<lambda>r. r\<lparr>verdict := map_verdict env ''NT''\<rparr>) (results (att s)))
               [''Error in setting testing status''] \<in> set (trace s3)"
      using tr by auto
    have fs: "filter is_start (trace s3) = filter is_start (trace s)"
      using tr mid by simp
    have h1: "handle_text_task env task_tests test_groups queue_item a t s = (None, s3)"
      unfolding handle_text_task_def
      by (rule soft_run_no_exception) (simp add: handle_text_task_body_def st')
    have h2: "handle_tests_checker env grouped_tests queue_item a t s = (None, s3)"
      unfolding handle_tests_checker_def
      by (rule soft_run_no_exception) (simp add: handle_tests_checker_body_def st')
    have h3: "handle_custom_checker env grouped_tests queue_item a t s = (None, s3)"
      unfolding handle_custom_checker_def
      by (rule soft_run_no_exception) (simp add: handle_custom_checker_body_def st')
    show ?thesis
      using False save e st' sa fs h1 h2 h3 by simp
  qed
  show ?thesis
  proof (cases "fst (set_testing env a t s) = Inr False")
    case True
    then show ?thesis by (rule lost)
  next
    case False
    with not_true \<open>modified_count env (spec (att s)) \<noteq> 1\<close> show ?thesis by simp
  qed
qed


theorem set_testing_lease_witness:
  "fst (set_testing example_env ''u1'' ''t1'' (example_state [slot ''x''])) = Inr True
   \<and> fst (set_testing example_env_lease_lost ''u1'' ''t1'' (example_state [slot ''x''])) = Inr False
   \<and> handle_tests_checker example_env_lease_lost [] \<lparr>task_type = 0, task_check_type = 0, checker = None\<rparr>
        ''u1'' ''t1'' (example_state [slot ''x'']) =
     (None,
      \<lparr>att = \<lparr>spec = ''a1'', date = 7, language = ''py'',
               results = [\<lparr>test = ''x'', verdict = 10\<rparr>], text_answers = []\<rparr>,
       trace = [Set_attempt_status ''a1'' 1, Set_user_task_status ''a1'' 1,
                Delete_pending ''a1'',
                Save_attempt ''a1'' 2 10 1 [\<lparr>test = ''x'', verdict = 10\<rparr>]
                  [''Error in setting testing status''],
                Set_user_task_status ''a1'' 2,
                Insert_user_task_result ''t1'' ''u1''
                  [\<lparr>snap_attempt = ''a1'', snap_date = 7, passedTests = 0, percentTests = 0,
                    snap_verdict = 10, verdictTest = 1\<rparr>]
                  [\<lparr>snap_attempt = ''a1'', snap_date = 7, passedTests = 0, percentTests = 0,
                    snap_verdict = 10, verdictTest = 1\<rparr>]]\<rparr>)"
proof -
  have mc: "modified_count example_env (spec (att (example_state [slot ''x'']))) = 1"
    by (simp add: example_env_simps)
  have a: "fst (set_testing example_env ''u1'' ''t1'' (example_state [slot ''x''])) = Inr True"
    using set_testing_lease [of example_env "''u1''" "''t1''" "example_state [slot ''x'']"] mc
    by simp
  have b: "fst (set_testing example_env_lease_lost ''u1'' ''t1'' (example_state [slot ''x'']))
      = Inr False"
    by (simp add: lease_lost_example)
  have c: "handle_tests_checker example_env_lease_lost []
        \<lparr>task_type = 0, task_check_type = 0, checker = None\<rparr>
        ''u1'' ''t1'' (example_state [slot ''x''])
      = (None, snd (set_testing example_env_lease_lost ''u1'' ''t1'' (example_state [slot ''x''])))"
    using set_testing_lease [of example_env_lease_lost "''u1''" "''t1''"
        "example_state [slot ''x'']"] b
    by simp
  from a b c show ?thesis by (simp add: lease_lost_example)
qed




subsection \<open>The writes of an invocation that lost the lease\<close>

text \<open>
  When the store does not report one modified document and the attempt has at least one
  result slot, \<^verbatim>\<open>_set_testing\<close> returns false after these writes: the two updates to
  "testing", the delete of the pending descriptor, the update of the attempt to "finished"
  with the code of NT in every slot, the update of the status mirror to "finished", the
  writes to the rating if any, and one write to the aggregate.
\<close>

lemma lease_lost_writes:
  assumes "modified_count env (spec (att s)) \<noteq> 1"
    and "results (att s) \<noteq> []"
  shows "fst (set_testing env a t s) = Inr False
    \<and> (\<exists>fv ft rating ev.
          trace (snd (set_testing env a t s)) =
            trace s
            @ [Set_attempt_status (spec (att s)) (map_attempt_status env ''testing''),
               Set_user_task_status (spec (att s)) (map_attempt_status env ''testing''),
               Delete_pending (spec (att s)),
               Save_attempt (spec (att s)) (map_attempt_status env ''finished'') fv ft
                 (map (\<lambda>r. r\<lparr>verdict := map_verdict env ''NT''\<rparr>) (results (att s)))
                 [''Error in setting testing status''],
               Set_user_task_status (spec (att s)) (map_attempt_status env ''finished'')]
            @ rating
            @ [ev]
          \<and> is_aggregate_write ev \<and> filter is_aggregate_write rating = [])"
proof -
  let ?vs = "generate_tests_verdicts env ''NT'' (length (results (att s)))"
  let ?rs' = "map (\<lambda>r. r\<lparr>verdict := map_verdict env ''NT''\<rparr>) (results (att s))"
  let ?info = "scan_results ?rs' (map_verdict env ''NT'') 0"
  let ?a' = "(att s)\<lparr>results := ?rs'\<rparr>"
  have rs': "map (\<lambda>(r, v). r\<lparr>verdict := v\<rparr>) (zip (results (att s)) ?vs) = ?rs'"
    by (simp add: generate_tests_verdicts_def assign_uniform)
  have "length ?vs \<noteq> 0" using assms(2) by simp
  then obtain pct where pct: "percent_tests (passed_tests_of env ?vs) (length ?vs) = Inr pct"
    using percent_tests_nonempty by blast
  let ?best = "best_attempt_of (find_user_task_result env t a)"
  let ?cur = "current_attempt ?a' (passed_tests_of env ?vs) pct (fst ?info) (snd ?info)"
  let ?nb = "new_best_attempt_of env ?a' ?best ?cur (fst ?info) pct"
  let ?rating = "rating_actions a ?best ?nb"
  let ?ev = "aggregate_action t a (find_user_task_result env t a) ?cur ?nb"
  have agg: "is_aggregate_write ?ev"
    by (simp add: aggregate_action_def split: option.splits)
  have rat: "filter is_aggregate_write ?rating = []"
    by (simp add: rating_actions_def)
  have st: "fst (set_testing env a t s) = Inr False
    \<and> trace (snd (set_testing env a t s)) =
      trace s
      @ [Set_attempt_status (spec (att s)) (map_attempt_status env ''testing''),
         Set_user_task_status (spec (att s)) (map_attempt_status env ''testing''),
         Delete_pending (spec (att s)),
         Save_attempt (spec (att s)) (map_attempt_status env ''finished'') (fst ?info) (snd ?info)
           ?rs' [''Error in setting testing status''],
         Set_user_task_status (spec (att s)) (map_attempt_status env ''finished'')]
      @ ?rating
      @ [?ev]"
    unfolding set_testing_lost [OF assms(1)]
    by (simp add: save_results_covered emit_def rs' save_task_results_nonempty [OF pct] Let_def)
  with agg rat show ?thesis by blast
qed

text \<open>
  C10. The claim has every invocation that lost the lease perform all four terminal writes.
  For an attempt without result slots the fallback verdicts are empty, the percentage
  divides by zero inside \<^verbatim>\<open>_save_task_results\<close> and \<^verbatim>\<open>_set_testing\<close> raises instead
  of returning false: the descriptor is deleted, the attempt and the status mirror are set
  to "finished", and no write to the aggregate is issued.
\<close>

theorem lease_lost_zero_tests:
  "set_testing example_env_lease_lost ''u1'' ''t1'' (example_state []) =
     (Inl ZeroDivisionError,
      \<lparr>att = \<lparr>spec = ''a1'', date = 7, language = ''py'', results = [], text_answers = []\<rparr>,
       trace = [Set_attempt_status ''a1'' 1, Set_user_task_status ''a1'' 1,
                Delete_pending ''a1'',
                Save_attempt ''a1'' 2 10 0 [] [''Error in setting testing status''],
                Set_user_task_status ''a1'' 2]\<rparr>)"
proof -
  have mc: "modified_count example_env_lease_lost (spec (att (example_state []))) \<noteq> 1"
    by (simp add: example_env_lease_lost_simps)
  show ?thesis
    unfolding set_testing_lost [OF mc]
    by (simp add: save_results_covered save_task_results_empty Let_def emit_def
        generate_tests_verdicts_def example_state_def example_env_lease_lost_simps)
qed

end
